theory Spec2Isabelle
  imports Complex_Main "HOL-Library.Word"
begin

section \<open>JavaScript values\<close>

text \<open>
  A JavaScript string is a sequence of UTF-16 code units: \<open>length\<close> counts code units and
  \<open>substring\<close> cuts between them. String literals of the source are written \<open>lit ''...''\<close>.
\<close>

type_synonym code_unit = "16 word"
type_synonym js_string = "code_unit list"

definition lit :: "string \<Rightarrow> js_string" where
  "lit s = map (\<lambda>c. word_of_nat (of_char c)) s"

text \<open>
  \<open>String.prototype.trim\<close> strips the ECMAScript WhiteSpace and LineTerminator code
  points from both ends: TAB, LF, VT, FF, CR, SP, NBSP, the Unicode space separators
  (U+1680, U+2000 to U+200A, U+202F, U+205F, U+3000), LS, PS and the byte order mark.
\<close>

definition is_js_space :: "code_unit \<Rightarrow> bool" where
  "is_js_space c =
     (c \<in> {0x9, 0xA, 0xB, 0xC, 0xD, 0x20, 0xA0, 0x1680, 0x2028, 0x2029,
            0x202F, 0x205F, 0x3000, 0xFEFF}
      \<or> (0x2000 \<le> c \<and> c \<le> 0x200A))"

definition trim :: "js_string \<Rightarrow> js_string" where
  "trim s = rev (dropWhile is_js_space (rev (dropWhile is_js_space s)))"

text \<open>\<open>s.substring(0, n)\<close> for \<open>n\<close> a non-negative integer: the first \<open>n\<close> code units, or all
  of \<open>s\<close> when it is shorter.\<close>

definition substring0 :: "js_string \<Rightarrow> nat \<Rightarrow> js_string" where
  "substring0 s n = take n s"

text \<open>
  The values \<open>JSON.parse\<close> can produce, and \<open>undefined\<close> for a property that is absent.
  A number is kept as the value it denotes; the handlers only test it for truthiness.
\<close>

datatype jsval =
    JUndefined
  | JNull
  | JBool bool
  | JNum rat
  | JStr js_string
  | JArr "jsval list"
  | JObj "(js_string \<times> jsval) list"

text \<open>ToBoolean: \<open>undefined\<close>, \<open>null\<close>, \<open>false\<close>, zero and the empty string are falsy.\<close>

fun truthy :: "jsval \<Rightarrow> bool" where
  "truthy JUndefined = False"
| "truthy JNull = False"
| "truthy (JBool b) = b"
| "truthy (JNum n) = (n \<noteq> 0)"
| "truthy (JStr s) = (s \<noteq> [])"
| "truthy (JArr xs) = True"
| "truthy (JObj kvs) = True"

text \<open>The operator \<open>a || b\<close>.\<close>

definition js_or :: "jsval \<Rightarrow> jsval \<Rightarrow> jsval" where
  "js_or a b = (if truthy a then a else b)"

text \<open>
  Property access \<open>v.k\<close> for the names the handlers read (\<open>status\<close>, \<open>message\<close>,
  \<open>favorite\<close>, \<open>kept\<close>). On \<open>null\<close> and \<open>undefined\<close> it throws a TypeError, which
  \<open>nullish\<close> tests beforehand; on an object it is the stored value or \<open>undefined\<close>; on any
  other parsed value it is \<open>undefined\<close>.
\<close>

definition nullish :: "jsval \<Rightarrow> bool" where
  "nullish v = (v = JNull \<or> v = JUndefined)"

fun get_prop :: "jsval \<Rightarrow> js_string \<Rightarrow> jsval" where
  "get_prop (JObj kvs) k = (case map_of kvs k of Some v \<Rightarrow> v | None \<Rightarrow> JUndefined)"
| "get_prop v k = JUndefined"

text \<open>
  A value interpolated into a template literal: \<open>getAttribute\<close> yields a string or
  \<open>null\<close>, and \<open>null\<close> is written as the text \<open>null\<close>.
\<close>

definition interpolate :: "js_string option \<Rightarrow> js_string" where
  "interpolate a = (case a of Some s \<Rightarrow> s | None \<Rightarrow> lit ''null'')"

section \<open>The browser environment\<close>

text \<open>The result of a call into the platform: it returns (a promise resolves) or it throws
  (a promise rejects).\<close>

datatype 'a outcome = Returns 'a | Throws

datatype request =
    PostJson js_string jsval
  | PostForm js_string "(js_string \<times> js_string) list"

record modal_opts =
  title :: js_string
  message :: js_string
  confirmText :: js_string

text \<open>
  Everything the script consumes and does not define:
  \<^item> \<open>showToast\<close>: whether \<open>window.showToast\<close> is defined;
  \<^item> \<open>showConfirmModal\<close>: \<open>window.showConfirmModal\<close> when defined. Modelled from the spec:
    the confirmation modal is defined outside this file; it runs the \<open>onConfirm\<close> callback
    it is given exactly when the user confirms, and the function here says whether the
    user does;
  \<^item> \<open>confirm\<close> and \<open>prompt\<close>: the native dialogs (\<open>prompt\<close> gives \<open>null\<close> on cancel);
  \<^item> \<open>fetch\<close>: a request together with \<open>response.json()\<close>, giving the parsed body, or
    throwing on a transport failure or a body that is not JSON;
  \<^item> \<open>writeText\<close>: \<open>navigator.clipboard.writeText\<close>, which rejects (or is missing
    altogether) when the write is not permitted;
  \<^item> \<open>execCommand\<close>: \<open>document.execCommand\<close>, which returns \<open>false\<close> when the command is
    unsupported or disabled.
\<close>

record env =
  showToast :: bool
  showConfirmModal :: "(modal_opts \<Rightarrow> bool) option"
  confirm :: "js_string \<Rightarrow> bool"
  prompt :: "js_string \<Rightarrow> js_string \<Rightarrow> js_string option"
  fetch :: "request \<Rightarrow> jsval outcome"
  writeText :: "js_string \<Rightarrow> unit outcome"
  execCommand :: "js_string \<Rightarrow> bool outcome"

section \<open>The clipboard write utility\<close>

text \<open>
  The children of \<open>document.body\<close>. A node has an identity, which \<open>createElement\<close>
  chooses different from that of every node in the document.
\<close>

datatype node = Element (node_id: nat) (tagName: js_string) (node_value: js_string)
  (node_style: "(js_string \<times> js_string) list")

record document =
  body :: "node list"

definition node_count :: "document \<Rightarrow> nat" where
  "node_count d = length (body d)"

definition createElement :: "document \<Rightarrow> js_string \<Rightarrow> node" where
  "createElement d tag = Element (Suc (foldr max (map node_id (body d)) 0)) tag [] []"

definition set_value :: "node \<Rightarrow> js_string \<Rightarrow> node" where
  "set_value n v = Element (node_id n) (tagName n) v (node_style n)"

definition set_style :: "node \<Rightarrow> js_string \<Rightarrow> js_string \<Rightarrow> node" where
  "set_style n k v = Element (node_id n) (tagName n) (node_value n) (node_style n @ [(k, v)])"

definition appendChild :: "document \<Rightarrow> node \<Rightarrow> document" where
  "appendChild d n = d\<lparr>body := body d @ [n]\<rparr>"

text \<open>\<open>removeChild\<close> throws a NotFoundError when the node is not a child.\<close>

definition removeChild :: "document \<Rightarrow> node \<Rightarrow> document option" where
  "removeChild d n =
     (if n \<in> set (body d) then Some (d\<lparr>body := remove1 n (body d)\<rparr>) else None)"

text \<open>
  \<open>copyToClipboard\<close> (the same text in both modules of the file). The result is \<open>None\<close>
  when an exception leaves the function, and otherwise the boolean it returns with the
  document it leaves behind. \<open>textarea.select()\<close> changes the selection only, and the
  legacy copy command reads the document without changing its nodes; the value that
  \<open>execCommand\<close> returns is not bound to anything, as in the source.
\<close>

definition copyToClipboard :: "env \<Rightarrow> js_string \<Rightarrow> document \<Rightarrow> (bool \<times> document) option" where
  "copyToClipboard e text d =
     (case writeText e text of
        Returns _ \<Rightarrow> Some (True, d)
      | Throws \<Rightarrow>
          (let textarea = createElement d (lit ''textarea'');
               textarea = set_value textarea text;
               textarea = set_style textarea (lit ''position'') (lit ''fixed'');
               textarea = set_style textarea (lit ''opacity'') (lit ''0'');
               d1 = appendChild d textarea;
               on_catch = (case removeChild d1 textarea of
                             Some d2 \<Rightarrow> Some (False, d2)
                           | None \<Rightarrow> None)
           in case execCommand e (lit ''copy'') of
                Returns _ \<Rightarrow>
                  (case removeChild d1 textarea of
                     Some d2 \<Rightarrow> Some (True, d2)
                   | None \<Rightarrow> on_catch)
              | Throws \<Rightarrow> on_catch))"

text \<open>An environment in which the clipboard API is refused and the legacy copy command
  reports failure through its return value.\<close>

definition env_copy_refused :: env where
  "env_copy_refused =
     \<lparr> showToast = True, showConfirmModal = None, confirm = (\<lambda>_. False),
       prompt = (\<lambda>_ _. None), fetch = (\<lambda>_. Throws),
       writeText = (\<lambda>_. Throws), execCommand = (\<lambda>_. Returns False) \<rparr>"

definition env_copy_throws :: env where
  "env_copy_throws = env_copy_refused\<lparr>execCommand := (\<lambda>_. Throws)\<rparr>"

definition doc0 :: document where
  "doc0 = \<lparr> body = [Element 4 (lit ''div'') [] [], Element 1 (lit ''p'') [] []] \<rparr>"

section \<open>Observable effects of a handler\<close>

text \<open>
  A handler runs to completion on one user gesture. Its effects on the outside are
  recorded in the order in which they happen; a dialog is recorded with the answer it
  gave. \<open>ReloadAfter ms\<close> is \<open>setTimeout(() => location.reload(), ms)\<close>.
\<close>

datatype event =
    PreventDefault
  | Toast jsval js_string
  | Fetch request
  | ReloadAfter nat
  | Focus
  | SetButtonLoading
  | ClearButtonLoading
  | Confirm js_string bool
  | ConfirmModal modal_opts bool
  | Prompt js_string js_string "js_string option"
  | InlineEditShown js_string
  | CancelRename

text \<open>\<open>if (window.showToast) { window.showToast(m, kind); }\<close>\<close>

definition toast :: "env \<Rightarrow> jsval \<Rightarrow> js_string \<Rightarrow> event list" where
  "toast e m kind = (if showToast e then [Toast m kind] else [])"

fun requests :: "event list \<Rightarrow> request list" where
  "requests [] = []"
| "requests (Fetch r # es) = r # requests es"
| "requests (ev # es) = requests es"

fun toasts :: "event list \<Rightarrow> (jsval \<times> js_string) list" where
  "toasts [] = []"
| "toasts (Toast m kind # es) = (m, kind) # toasts es"
| "toasts (ev # es) = toasts es"

fun reloads :: "event list \<Rightarrow> nat list" where
  "reloads [] = []"
| "reloads (ReloadAfter ms # es) = ms # reloads es"
| "reloads (ev # es) = reloads es"

text \<open>The text put before the user by a confirmation step, and whether the step ended
  with the user confirming.\<close>

fun confirmation_messages :: "event list \<Rightarrow> js_string list" where
  "confirmation_messages [] = []"
| "confirmation_messages (Confirm m a # es) = m # confirmation_messages es"
| "confirmation_messages (ConfirmModal opts a # es) = message opts # confirmation_messages es"
| "confirmation_messages (ev # es) = confirmation_messages es"

fun affirmative :: "event \<Rightarrow> bool" where
  "affirmative (Confirm m a) = a"
| "affirmative (ConfirmModal opts a) = a"
| "affirmative ev = False"

text \<open>The events that are a confirmation step: the native dialog or the custom modal.\<close>

fun is_confirmation :: "event \<Rightarrow> bool" where
  "is_confirmation (Confirm m a) = True"
| "is_confirmation (ConfirmModal opts a) = True"
| "is_confirmation ev = False"

text \<open>\<open>confirmed_before_request ok tr\<close>: every request of \<open>tr\<close> has an affirmative
  confirmation somewhere before it (\<open>ok\<close> says that one has already been seen).\<close>

fun confirmed_before_request :: "bool \<Rightarrow> event list \<Rightarrow> bool" where
  "confirmed_before_request ok [] = True"
| "confirmed_before_request ok (Fetch r # es) = (ok \<and> confirmed_before_request ok es)"
| "confirmed_before_request ok (ev # es) = confirmed_before_request (ok \<or> affirmative ev) es"

section \<open>Page elements\<close>

text \<open>
  A button is read through \<open>getAttribute\<close> (\<open>null\<close> for a missing attribute). For the
  rename button, \<open>folderRow\<close> says whether \<open>button.closest('.folder-row')\<close> finds a row and
  \<open>folderLink\<close> whether that row holds a \<open>.folder-link\<close>.
\<close>

record button =
  getAttribute :: "js_string \<Rightarrow> js_string option"
  folderRow :: bool
  folderLink :: bool

text \<open>
  A form: the value of its \<open>[name="clipboard_data"]\<close> element when there is one, whether
  it holds a submit button, and the entries \<open>new FormData(form)\<close> collects.
\<close>

record form =
  textArea :: "js_string option"
  submitBtn :: bool
  formData :: "(js_string \<times> js_string) list"

text \<open>\<open>button.getAttribute(k) || dflt\<close>: the default replaces \<open>null\<close> and the empty string.\<close>

definition attr_or :: "js_string option \<Rightarrow> js_string \<Rightarrow> js_string" where
  "attr_or a dflt = (case a of None \<Rightarrow> dflt | Some s \<Rightarrow> if s = [] then dflt else s)"

definition dquote :: js_string where
  "dquote = [0x22]"

section \<open>The create-entry form\<close>

text \<open>The submit listener of \<open>handleClipboardForm\<close> in the first module.\<close>

definition handleClipboardForm :: "env \<Rightarrow> form \<Rightarrow> event list" where
  "handleClipboardForm e f =
     PreventDefault #
     (let text = (case textArea f of Some v \<Rightarrow> trim v | None \<Rightarrow> [])
      in if text = [] then toast e (JStr (lit ''Please enter some text'')) (lit ''error'')
         else
           (let req = PostForm (lit ''/clipboard'') (formData f)
            in Fetch req #
               (case fetch e req of
                  Throws \<Rightarrow> toast e (JStr (lit ''Failed to save'')) (lit ''error'')
                | Returns result \<Rightarrow>
                    if nullish result
                    then toast e (JStr (lit ''Failed to save'')) (lit ''error'')
                    else if get_prop result (lit ''status'') = JStr (lit ''success'')
                    then toast e (JStr (lit ''Saved to clipboard!'')) (lit ''success'')
                         @ [ReloadAfter 1000]
                    else toast e (js_or (get_prop result (lit ''message''))
                                        (JStr (lit ''Failed to save''))) (lit ''error''))))"

text \<open>The same listener in the second module: it also focuses the text area on a blank
  submission and puts the submit button in its loading state during the request.\<close>

definition handleClipboardForm2 :: "env \<Rightarrow> form \<Rightarrow> event list" where
  "handleClipboardForm2 e f =
     PreventDefault #
     (let text = (case textArea f of Some v \<Rightarrow> trim v | None \<Rightarrow> []);
          clearLoading = (if submitBtn f then [ClearButtonLoading] else [])
      in if text = []
         then toast e (JStr (lit ''Please enter some text'')) (lit ''error'')
              @ (if textArea f \<noteq> None then [Focus] else [])
         else
           (let req = PostForm (lit ''/clipboard'') (formData f)
            in (if submitBtn f then [SetButtonLoading] else []) @
               Fetch req #
               (case fetch e req of
                  Throws \<Rightarrow>
                    clearLoading @ toast e (JStr (lit ''Failed to save'')) (lit ''error'')
                | Returns result \<Rightarrow>
                    if nullish result
                    then clearLoading @ toast e (JStr (lit ''Failed to save'')) (lit ''error'')
                    else if get_prop result (lit ''status'') = JStr (lit ''success'')
                    then toast e (JStr (lit ''Saved to clipboard!'')) (lit ''success'')
                         @ [ReloadAfter 800]
                    else clearLoading @
                         toast e (js_or (get_prop result (lit ''message''))
                                        (JStr (lit ''Failed to save''))) (lit ''error''))))"

section \<open>Item actions\<close>

text \<open>The click listener of \<open>handleDeleteButtons\<close> (the same text in both modules):
  the constants \<open>name\<close> and \<open>itemName\<close>, the closure \<open>doDelete\<close>, and the confirmation.\<close>

definition deleteName :: "button \<Rightarrow> js_string" where
  "deleteName b = attr_or (getAttribute b (lit ''data-name'')) (lit ''this item'')"

definition itemName :: "button \<Rightarrow> js_string" where
  "itemName b =
     (let name = deleteName b
      in if length name > 30 then substring0 name 30 @ lit ''...'' else name)"

definition doDelete :: "env \<Rightarrow> js_string option \<Rightarrow> event list" where
  "doDelete e itemId =
     (let req = PostJson (lit ''/clipboard/'' @ interpolate itemId @ lit ''/delete'') (JObj [])
      in Fetch req #
         (case fetch e req of
            Throws \<Rightarrow> toast e (JStr (lit ''Failed to delete'')) (lit ''error'')
          | Returns result \<Rightarrow>
              if nullish result then toast e (JStr (lit ''Failed to delete'')) (lit ''error'')
              else if get_prop result (lit ''status'') = JStr (lit ''success'')
              then toast e (JStr (lit ''Deleted!'')) (lit ''success'') @ [ReloadAfter 1000]
              else toast e (js_or (get_prop result (lit ''message''))
                                  (JStr (lit ''Failed to delete''))) (lit ''error'')))"

definition handleDeleteButtons :: "env \<Rightarrow> button \<Rightarrow> event list" where
  "handleDeleteButtons e b =
     (let itemId = getAttribute b (lit ''data-id'')
      in case showConfirmModal e of
           Some modal \<Rightarrow>
             (let opts = \<lparr> title = lit ''Delete Clipboard Item'',
                           message = lit ''Are you sure you want to delete '' @ dquote
                                     @ itemName b @ dquote
                                     @ lit ''? This action cannot be undone.'',
                           confirmText = lit ''Delete'' \<rparr>
              in ConfirmModal opts (modal opts) #
                 (if modal opts then doDelete e itemId else []))
         | None \<Rightarrow>
             (let question = lit ''Delete '' @ dquote @ itemName b @ dquote @ lit ''?''
              in Confirm question (confirm e question) #
                 (if confirm e question then doDelete e itemId else [])))"

text \<open>The click listener of \<open>handleFavoriteToggles\<close> (the same text in both modules).\<close>

definition handleFavoriteToggles :: "env \<Rightarrow> button \<Rightarrow> event list" where
  "handleFavoriteToggles e b =
     (let itemId = getAttribute b (lit ''data-id'');
          current = (getAttribute b (lit ''data-favorite'') = Some (lit ''true''));
          target = (\<not> current);
          req = PostJson (lit ''/clipboard/'' @ interpolate itemId @ lit ''/favorite'')
                         (JObj [(lit ''favorite'', JBool target)])
      in Fetch req #
         (case fetch e req of
            Throws \<Rightarrow> toast e (JStr (lit ''Failed to update favorite'')) (lit ''error'')
          | Returns result \<Rightarrow>
              if nullish result
              then toast e (JStr (lit ''Failed to update favorite'')) (lit ''error'')
              else if get_prop result (lit ''status'') = JStr (lit ''success'')
              then toast e (JStr (if truthy (get_prop result (lit ''favorite''))
                                  then lit ''Added to favorites''
                                  else lit ''Removed from favorites'')) (lit ''success'')
                   @ [ReloadAfter 500]
              else toast e (js_or (get_prop result (lit ''message''))
                                  (JStr (lit ''Failed to update favorite''))) (lit ''error'')))"

text \<open>The click listener of \<open>handleRetentionToggles\<close> (the same text in both modules).\<close>

definition handleRetentionToggles :: "env \<Rightarrow> button \<Rightarrow> event list" where
  "handleRetentionToggles e b =
     (let itemId = getAttribute b (lit ''data-id'');
          current = (getAttribute b (lit ''data-keep'') = Some (lit ''true''));
          target = (\<not> current);
          req = PostJson (lit ''/clipboard/'' @ interpolate itemId @ lit ''/retention'')
                         (JObj [(lit ''keep'', JBool target)])
      in Fetch req #
         (case fetch e req of
            Throws \<Rightarrow> toast e (JStr (lit ''Failed to update retention'')) (lit ''error'')
          | Returns result \<Rightarrow>
              if nullish result
              then toast e (JStr (lit ''Failed to update retention'')) (lit ''error'')
              else if get_prop result (lit ''status'') = JStr (lit ''success'')
              then toast e (JStr (if truthy (get_prop result (lit ''kept''))
                                  then lit ''Kept indefinitely''
                                  else lit ''Retention restored'')) (lit ''success'')
                   @ [ReloadAfter 500]
              else toast e (js_or (get_prop result (lit ''message''))
                                  (JStr (lit ''Failed to update retention''))) (lit ''error'')))"

section \<open>Folder actions\<close>

text \<open>The submit listener of \<open>handleFolderCreate\<close> (the same text in both modules);
  \<open>formData.get('name')\<close> is the first entry of that name, or \<open>null\<close>.\<close>

definition handleFolderCreate :: "env \<Rightarrow> form \<Rightarrow> event list" where
  "handleFolderCreate e f =
     PreventDefault #
     (let name = map_of (formData f) (lit ''name'');
          blank = (case name of None \<Rightarrow> True | Some n \<Rightarrow> n = [] \<or> trim n = [])
      in if blank then toast e (JStr (lit ''Folder name is required'')) (lit ''error'')
         else
           (let req = PostForm (lit ''/clipboard/folders'') (formData f)
            in Fetch req #
               (case fetch e req of
                  Throws \<Rightarrow> toast e (JStr (lit ''Failed to create folder'')) (lit ''error'')
                | Returns result \<Rightarrow>
                    if nullish result
                    then toast e (JStr (lit ''Failed to create folder'')) (lit ''error'')
                    else if get_prop result (lit ''status'') = JStr (lit ''success'')
                    then toast e (JStr (lit ''Folder created'')) (lit ''success'')
                         @ [ReloadAfter 500]
                    else toast e (js_or (get_prop result (lit ''message''))
                                        (JStr (lit ''Failed to create folder'')))
                                 (lit ''error''))))"

text \<open>The click listener of \<open>handleFolderRename\<close> in the first module: a native
  prompt filled in with the current name.\<close>

definition handleFolderRename :: "env \<Rightarrow> button \<Rightarrow> event list" where
  "handleFolderRename e b =
     (let folderId = getAttribute b (lit ''data-id'');
          currentName = attr_or (getAttribute b (lit ''data-name'')) [];
          newName = prompt e (lit ''Rename folder'') currentName
      in Prompt (lit ''Rename folder'') currentName newName #
         (case newName of
            None \<Rightarrow> []
          | Some n \<Rightarrow>
              if n = [] \<or> trim n = [] then []
              else
                (let req = PostJson (lit ''/clipboard/folders/'' @ interpolate folderId
                                       @ lit ''/rename'')
                                    (JObj [(lit ''name'', JStr (trim n))])
                 in Fetch req #
                    (case fetch e req of
                       Throws \<Rightarrow>
                         toast e (JStr (lit ''Failed to rename folder'')) (lit ''error'')
                     | Returns result \<Rightarrow>
                         if nullish result
                         then toast e (JStr (lit ''Failed to rename folder'')) (lit ''error'')
                         else if get_prop result (lit ''status'') = JStr (lit ''success'')
                         then toast e (JStr (lit ''Folder renamed'')) (lit ''success'')
                              @ [ReloadAfter 500]
                         else toast e (js_or (get_prop result (lit ''message''))
                                             (JStr (lit ''Failed to rename folder'')))
                                      (lit ''error'')))))"

text \<open>\<open>submitFolderRename\<close> of the second module.\<close>

definition submitFolderRename :: "env \<Rightarrow> js_string option \<Rightarrow> js_string \<Rightarrow> event list" where
  "submitFolderRename e folderId newName =
     (let req = PostJson (lit ''/clipboard/folders/'' @ interpolate folderId @ lit ''/rename'')
                         (JObj [(lit ''name'', JStr newName)])
      in Fetch req #
         (case fetch e req of
            Throws \<Rightarrow> toast e (JStr (lit ''Failed to rename folder'')) (lit ''error'')
          | Returns result \<Rightarrow>
              if nullish result
              then toast e (JStr (lit ''Failed to rename folder'')) (lit ''error'')
              else if get_prop result (lit ''status'') = JStr (lit ''success'')
              then toast e (JStr (lit ''Folder renamed'')) (lit ''success'') @ [ReloadAfter 500]
              else toast e (js_or (get_prop result (lit ''message''))
                                  (JStr (lit ''Failed to rename folder''))) (lit ''error'')))"

text \<open>\<open>s.replace(/"/g, '&quot;')\<close>: every double quote is written as a character reference.\<close>

definition escapeQuotes :: "js_string \<Rightarrow> js_string" where
  "escapeQuotes s = concat (map (\<lambda>c. if c = 0x22 then lit ''&quot;'' else [c]) s)"

text \<open>
  The click listener of \<open>handleFolderRename\<close> in the second module: the prompt when the
  button is not inside a folder row with a link, and otherwise an inline edit field.
  The field is built by assigning markup to \<open>innerHTML\<close>, and \<open>InlineEditShown\<close> records
  the text written between the quotes of its \<open>value\<close> attribute: the current name with
  its double quotes escaped and nothing else. What the field holds after the browser
  has parsed that markup (character references in the name are decoded), and after the
  user has edited it, reaches \<open>saveRename\<close> as \<open>inputValue\<close>.
\<close>

definition handleFolderRename2 :: "env \<Rightarrow> button \<Rightarrow> event list" where
  "handleFolderRename2 e b =
     (let folderId = getAttribute b (lit ''data-id'');
          currentName = attr_or (getAttribute b (lit ''data-name'')) []
      in if \<not> folderRow b \<or> \<not> folderLink b
         then
           (let newName = prompt e (lit ''Rename folder'') currentName
            in Prompt (lit ''Rename folder'') currentName newName #
               (case newName of
                  None \<Rightarrow> []
                | Some n \<Rightarrow>
                    if n \<noteq> [] \<and> trim n \<noteq> [] then submitFolderRename e folderId (trim n)
                    else []))
         else [InlineEditShown (escapeQuotes currentName)])"

text \<open>\<open>saveRename\<close>, the closure behind the save button and the Enter key of the inline
  edit field of button \<open>b\<close>; \<open>inputValue\<close> is what the field holds.\<close>

definition saveRename :: "env \<Rightarrow> button \<Rightarrow> js_string \<Rightarrow> event list" where
  "saveRename e b inputValue =
     (let folderId = getAttribute b (lit ''data-id'');
          currentName = attr_or (getAttribute b (lit ''data-name'')) [];
          newName = trim inputValue
      in if newName = [] \<or> newName = currentName then [CancelRename]
         else
           (let req = PostJson (lit ''/clipboard/folders/'' @ interpolate folderId
                                  @ lit ''/rename'')
                               (JObj [(lit ''name'', JStr newName)])
            in SetButtonLoading # Fetch req #
               (case fetch e req of
                  Throws \<Rightarrow>
                    ClearButtonLoading #
                    toast e (JStr (lit ''Failed to rename folder'')) (lit ''error'')
                | Returns result \<Rightarrow>
                    if nullish result
                    then ClearButtonLoading #
                         toast e (JStr (lit ''Failed to rename folder'')) (lit ''error'')
                    else if get_prop result (lit ''status'') = JStr (lit ''success'')
                    then toast e (JStr (lit ''Folder renamed'')) (lit ''success'')
                         @ [ReloadAfter 500]
                    else ClearButtonLoading #
                         toast e (js_or (get_prop result (lit ''message''))
                                        (JStr (lit ''Failed to rename folder'')))
                                 (lit ''error''))))"

text \<open>The click listener of \<open>handleFolderDelete\<close> (the same text in both modules), with
  its closure \<open>doDelete\<close>.\<close>

definition doDeleteFolder :: "env \<Rightarrow> js_string option \<Rightarrow> event list" where
  "doDeleteFolder e folderId =
     (let req = PostJson (lit ''/clipboard/folders/'' @ interpolate folderId @ lit ''/delete'')
                         (JObj [])
      in Fetch req #
         (case fetch e req of
            Throws \<Rightarrow> toast e (JStr (lit ''Failed to delete folder'')) (lit ''error'')
          | Returns result \<Rightarrow>
              if nullish result
              then toast e (JStr (lit ''Failed to delete folder'')) (lit ''error'')
              else if get_prop result (lit ''status'') = JStr (lit ''success'')
              then toast e (JStr (lit ''Folder deleted'')) (lit ''success'') @ [ReloadAfter 500]
              else toast e (js_or (get_prop result (lit ''message''))
                                  (JStr (lit ''Failed to delete folder''))) (lit ''error'')))"

definition handleFolderDelete :: "env \<Rightarrow> button \<Rightarrow> event list" where
  "handleFolderDelete e b =
     (let folderId = getAttribute b (lit ''data-id'');
          question = lit ''Delete this folder? It must be empty before removal.''
      in case showConfirmModal e of
           Some modal \<Rightarrow>
             (let opts = \<lparr> title = lit ''Delete Folder'', message = question,
                           confirmText = lit ''Delete'' \<rparr>
              in ConfirmModal opts (modal opts) #
                 (if modal opts then doDeleteFolder e folderId else []))
         | None \<Rightarrow>
             Confirm question (confirm e question) #
             (if confirm e question then doDeleteFolder e folderId else []))"

section \<open>The listeners bound at initialisation\<close>

text \<open>
  \<open>initClipboardHandlers\<close> binds one listener per element and action, in each of the two
  modules of the file. A gesture names the listener it triggers and the element or field
  value it acts on; \<open>handle\<close> runs that listener. Where the two modules hold the same
  text there is one gesture for both; where they differ, the gesture of the second
  module ends in \<open>2\<close>. The listeners that never issue a request (copy and share) are left
  out.
\<close>

datatype gesture =
    SubmitClipboardForm form
  | SubmitClipboardForm2 form
  | ClickDelete button
  | ClickFavorite button
  | ClickRetention button
  | SubmitFolderCreate form
  | ClickFolderRename button
  | ClickFolderRename2 button
  | SaveInlineRename button js_string
  | ClickFolderDelete button

fun handle :: "env \<Rightarrow> gesture \<Rightarrow> event list" where
  "handle e (SubmitClipboardForm f) = handleClipboardForm e f"
| "handle e (SubmitClipboardForm2 f) = handleClipboardForm2 e f"
| "handle e (ClickDelete b) = handleDeleteButtons e b"
| "handle e (ClickFavorite b) = handleFavoriteToggles e b"
| "handle e (ClickRetention b) = handleRetentionToggles e b"
| "handle e (SubmitFolderCreate f) = handleFolderCreate e f"
| "handle e (ClickFolderRename b) = handleFolderRename e b"
| "handle e (ClickFolderRename2 b) = handleFolderRename2 e b"
| "handle e (SaveInlineRename b v) = saveRename e b v"
| "handle e (ClickFolderDelete b) = handleFolderDelete e b"

text \<open>The generic message each listener falls back to when the server names none.\<close>

fun generic_message :: "gesture \<Rightarrow> js_string" where
  "generic_message (SubmitClipboardForm f) = lit ''Failed to save''"
| "generic_message (SubmitClipboardForm2 f) = lit ''Failed to save''"
| "generic_message (ClickDelete b) = lit ''Failed to delete''"
| "generic_message (ClickFavorite b) = lit ''Failed to update favorite''"
| "generic_message (ClickRetention b) = lit ''Failed to update retention''"
| "generic_message (SubmitFolderCreate f) = lit ''Failed to create folder''"
| "generic_message (ClickFolderRename b) = lit ''Failed to rename folder''"
| "generic_message (ClickFolderRename2 b) = lit ''Failed to rename folder''"
| "generic_message (SaveInlineRename b v) = lit ''Failed to rename folder''"
| "generic_message (ClickFolderDelete b) = lit ''Failed to delete folder''"

text \<open>The endpoint each of the two delete listeners posts to.\<close>

definition delete_endpoint :: "gesture \<Rightarrow> js_string" where
  "delete_endpoint g =
     (case g of
        ClickDelete b \<Rightarrow>
          lit ''/clipboard/'' @ interpolate (getAttribute b (lit ''data-id'')) @ lit ''/delete''
      | ClickFolderDelete b \<Rightarrow>
          lit ''/clipboard/folders/'' @ interpolate (getAttribute b (lit ''data-id''))
          @ lit ''/delete''
      | _ \<Rightarrow> [])"

section \<open>Outcomes and sample inputs\<close>

text \<open>
  What is expected of a listener whose request \<open>req\<close> was answered by \<open>result\<close> with a
  status other than \<open>success\<close>: the request is the only one (no retry), no reload is
  scheduled, and the toast, when toasts are available, carries the server's message or
  else the listener's generic message.
\<close>

definition failure_outcome :: "env \<Rightarrow> gesture \<Rightarrow> request \<Rightarrow> jsval \<Rightarrow> bool" where
  "failure_outcome e g req result \<longleftrightarrow>
     requests (handle e g) = [req] \<and> reloads (handle e g) = [] \<and>
     toasts (handle e g) =
       (if showToast e
        then [(js_or (get_prop result (lit ''message'')) (JStr (generic_message g)),
               lit ''error'')]
        else [])"

text \<open>
  A page with toasts and no custom modal, a user who confirms every dialog and accepts
  the prompt as it is filled in, and a server that answers every request with success.
\<close>

definition env_ok :: env where
  "env_ok =
     \<lparr> showToast = True, showConfirmModal = None, confirm = (\<lambda>_. True),
       prompt = (\<lambda>_ dflt. Some dflt),
       fetch = (\<lambda>_. Returns (JObj [(lit ''status'', JStr (lit ''success'')),
                                   (lit ''favorite'', JBool True)])),
       writeText = (\<lambda>_. Returns ()), execCommand = (\<lambda>_. Returns True) \<rparr>"

definition env_no_toast :: env where
  "env_no_toast = env_ok\<lparr>showToast := False\<rparr>"

definition env_decline :: env where
  "env_decline = env_ok\<lparr>confirm := (\<lambda>_. False)\<rparr>"

definition env_modal_dismissed :: env where
  "env_modal_dismissed = env_ok\<lparr>showConfirmModal := Some (\<lambda>_. False)\<rparr>"

definition server_error :: jsval where
  "server_error = JObj [(lit ''status'', JStr (lit ''error'')),
                        (lit ''message'', JStr (lit ''Folder is not empty''))]"

definition server_error_blank :: jsval where
  "server_error_blank = JObj [(lit ''status'', JStr (lit ''error'')), (lit ''message'', JStr [])]"

definition env_server_error :: env where
  "env_server_error = env_ok\<lparr>fetch := (\<lambda>_. Returns server_error)\<rparr>"

definition env_server_error_no_toast :: env where
  "env_server_error_no_toast = env_server_error\<lparr>showToast := False\<rparr>"

definition env_server_error_blank :: env where
  "env_server_error_blank = env_ok\<lparr>fetch := (\<lambda>_. Returns server_error_blank)\<rparr>"

definition btn_work :: button where
  "btn_work =
     \<lparr> getAttribute = map_of [(lit ''data-id'', lit ''7''), (lit ''data-name'', lit ''Work'')],
       folderRow = False, folderLink = False \<rparr>"

definition btn_item :: button where
  "btn_item =
     \<lparr> getAttribute = map_of [(lit ''data-id'', lit ''123''),
         (lit ''data-favorite'', lit ''false''),
         (lit ''data-name'', lit ''A very very very long folder title exceeding thirty chars'')],
       folderRow = False, folderLink = False \<rparr>"

definition btn_starred :: button where
  "btn_starred =
     \<lparr> getAttribute = map_of [(lit ''data-id'', lit ''124''),
         (lit ''data-favorite'', lit ''true''), (lit ''data-name'', [])],
       folderRow = False, folderLink = False \<rparr>"

definition btn_bare :: button where
  "btn_bare = \<lparr> getAttribute = map_of [(lit ''data-id'', lit ''125'')],
       folderRow = False, folderLink = False \<rparr>"

definition form_blank :: form where
  "form_blank = \<lparr> textArea = Some (lit ''   ''), submitBtn = True,
       formData = [(lit ''clipboard_data'', lit ''   '')] \<rparr>"

section \<open>Properties of the clipboard write utility\<close>

lemma node_id_le_foldr_max: "n \<in> set ns \<Longrightarrow> node_id n \<le> foldr max (map node_id ns) 0"
  by (induction ns) (auto simp: max_def)

lemma created_node_is_new:
  "Element (Suc (foldr max (map node_id ns) 0)) t v st \<notin> set ns"
proof
  assume "Element (Suc (foldr max (map node_id ns) 0)) t v st \<in> set ns"
  from node_id_le_foldr_max [OF this] show False by simp
qed

lemma remove1_appended: "n \<notin> set ns \<Longrightarrow> remove1 n (ns @ [n]) = ns"
  by (induction ns) auto

lemma remove_appended_textarea:
  assumes "node_id n = Suc (foldr max (map node_id (body d)) 0)"
  shows "removeChild (appendChild d n) n = Some d"
proof -
  have "n \<notin> set (body d)"
    using assms created_node_is_new [of "body d" "tagName n" "node_value n" "node_style n"]
    by (cases n) simp
  then show ?thesis
    by (simp add: removeChild_def appendChild_def remove1_appended)
qed

lemma copyToClipboard_fallback:
  assumes "writeText e text = Throws"
  shows "copyToClipboard e text d = Some (execCommand e (lit ''copy'') \<noteq> Throws, d)"
proof -
  define ta where "ta = set_style (set_style (set_value (createElement d (lit ''textarea'')) text)
       (lit ''position'') (lit ''fixed'')) (lit ''opacity'') (lit ''0'')"
  have "node_id ta = Suc (foldr max (map node_id (body d)) 0)"
    by (simp add: ta_def set_style_def set_value_def createElement_def)
  then have rm: "removeChild (appendChild d ta) ta = Some d"
    by (rule remove_appended_textarea)
  show ?thesis
    using assms rm
    by (cases "execCommand e (lit ''copy'')")
       (simp_all add: copyToClipboard_def Let_def ta_def)
qed

lemma copyToClipboard_primary:
  "writeText e text = Returns u \<Longrightarrow> copyToClipboard e text d = Some (True, d)"
  by (simp add: copyToClipboard_def)

text \<open>What the function computes: it always returns, and it returns \<open>false\<close> exactly when
  the clipboard API throws and the legacy command throws as well.\<close>

lemma copyToClipboard_result:
  "copyToClipboard e text d =
     Some (\<not> (writeText e text = Throws \<and> execCommand e (lit ''copy'') = Throws), d)"
proof (cases "writeText e text")
  case (Returns u)
  then show ?thesis by (simp add: copyToClipboard_primary)
next
  case Throws
  then show ?thesis by (simp add: copyToClipboard_fallback)
qed

text \<open>
  Claim C1. \<open>copyToClipboard\<close> should return \<open>true\<close> exactly when the write succeeded on
  the primary or on the fallback path, and \<open>false\<close> when both fail. The legacy command
  reports a failed copy by returning \<open>false\<close>, and the function never reads that value:
  when the clipboard API is refused and \<open>execCommand('copy')\<close> returns \<open>false\<close>, nothing
  was written and the function still returns \<open>true\<close>.
\<close>

theorem copyToClipboard_true_on_failed_fallback:
  "writeText env_copy_refused (lit ''hello'') = Throws
   \<and> execCommand env_copy_refused (lit ''copy'') = Returns False
   \<and> copyToClipboard env_copy_refused (lit ''hello'') doc0 = Some (True, doc0)"
  by (simp add: copyToClipboard_result env_copy_refused_def)

text \<open>
  Claim C9. On the fallback path (the clipboard API threw) the function returns, and the
  document it leaves is the one it found: the textarea appended to \<open>document.body\<close> is
  removed again whether the legacy copy command returns or throws, so the number of
  nodes is unchanged.
\<close>

theorem copyToClipboard_fallback_restores_dom:
  "writeText e text = Throws \<Longrightarrow>
     copyToClipboard e text d = Some (execCommand e (lit ''copy'') \<noteq> Throws, d)
     \<and> map_option (node_count \<circ> snd) (copyToClipboard e text d) = Some (node_count d)"
  by (simp add: copyToClipboard_fallback)

theorem copyToClipboard_fallback_restores_dom_witness:
  "writeText env_copy_refused (lit ''hello'') = Throws
   \<and> copyToClipboard env_copy_refused (lit ''hello'') doc0 = Some (True, doc0)
   \<and> writeText env_copy_throws (lit ''hello'') = Throws
   \<and> copyToClipboard env_copy_throws (lit ''hello'') doc0 = Some (False, doc0)
   \<and> map_option (node_count \<circ> snd) (copyToClipboard env_copy_throws (lit ''hello'') doc0) = Some 2"
  using copyToClipboard_fallback_restores_dom [of env_copy_refused "lit ''hello''" doc0]
        copyToClipboard_fallback_restores_dom [of env_copy_throws "lit ''hello''" doc0]
  by (simp add: env_copy_refused_def env_copy_throws_def doc0_def node_count_def)

section \<open>Strings and traces\<close>

lemmas js_eval = lit_def trim_def is_js_space_def attr_or_def interpolate_def toast_def Let_def
  nullish_def js_or_def substring0_def dquote_def

lemma length_lit [simp]: "length (lit s) = length s"
  by (simp add: lit_def)

lemma take_lit: "take n (lit s) = lit (take n s)"
  by (simp add: lit_def take_map)

lemma dropWhile_all: "list_all P v \<Longrightarrow> dropWhile P v = []"
  by (simp add: list_all_iff)

lemma trim_all_space: "list_all is_js_space v \<Longrightarrow> trim v = []"
  by (simp add: trim_def dropWhile_all)

text \<open>Trimming leaves nothing exactly when every code unit is white space.\<close>

lemma trim_empty_iff: "trim v = [] \<longleftrightarrow> list_all is_js_space v"
proof
  assume t: "trim v = []"
  show "list_all is_js_space v"
  proof (cases "dropWhile is_js_space v")
    case Nil
    then show ?thesis by (simp add: list_all_iff)
  next
    case (Cons c cs)
    then have "\<not> is_js_space c"
      using hd_dropWhile [of is_js_space v] by simp
    moreover from t Cons have "is_js_space c"
      by (simp add: trim_def)
    ultimately show ?thesis by simp
  qed
next
  assume "list_all is_js_space v"
  then show "trim v = []" by (rule trim_all_space)
qed

lemma requests_append [simp]: "requests (xs @ ys) = requests xs @ requests ys"
  by (induction xs rule: requests.induct) simp_all

lemma toasts_append [simp]: "toasts (xs @ ys) = toasts xs @ toasts ys"
  by (induction xs rule: toasts.induct) simp_all

lemma reloads_append [simp]: "reloads (xs @ ys) = reloads xs @ reloads ys"
  by (induction xs rule: reloads.induct) simp_all

lemma confirmation_messages_append [simp]:
  "confirmation_messages (xs @ ys) = confirmation_messages xs @ confirmation_messages ys"
  by (induction xs rule: confirmation_messages.induct) simp_all

lemma requests_toast [simp]: "requests (toast e m k) = []"
  by (simp add: toast_def)

lemma reloads_toast [simp]: "reloads (toast e m k) = []"
  by (simp add: toast_def)

lemma toasts_toast [simp]: "toasts (toast e m k) = (if showToast e then [(m, k)] else [])"
  by (simp add: toast_def)

lemma confirmation_messages_toast [simp]: "confirmation_messages (toast e m k) = []"
  by (simp add: toast_def)

lemma get_prop_nullish: "nullish r \<Longrightarrow> get_prop r k = JUndefined"
  by (auto simp: nullish_def)

lemma js_or_undefined [simp]: "js_or JUndefined d = d"
  by (simp add: js_or_def)

section \<open>Requests and server-reported failure, listener by listener\<close>

lemma handleClipboardForm_requests:
  "requests (handleClipboardForm e f) =
     (if (case textArea f of Some v \<Rightarrow> trim v | None \<Rightarrow> []) \<noteq> []
      then [PostForm (lit ''/clipboard'') (formData f)]
      else [])"
  by (simp add: handleClipboardForm_def Let_def split: outcome.splits option.splits)

lemma handleClipboardForm_failure:
  assumes "req \<in> set (requests (handleClipboardForm e f))" "fetch e req = Returns result"
    "get_prop result (lit ''status'') \<noteq> JStr (lit ''success'')"
  shows "failure_outcome e (SubmitClipboardForm f) req result"
proof -
  from assms(1) have g: "(case textArea f of Some v \<Rightarrow> trim v | None \<Rightarrow> []) \<noteq> []"
    and r: "req = PostForm (lit ''/clipboard'') (formData f)"
    by (simp_all add: handleClipboardForm_requests split: if_splits)
  from assms(2) r have fr: "fetch e (PostForm (lit ''/clipboard'') (formData f)) = Returns result"
    by simp
  show ?thesis using g fr assms(3) r
    by (auto simp add: failure_outcome_def handleClipboardForm_def Let_def get_prop_nullish)
qed

lemma handleClipboardForm2_requests:
  "requests (handleClipboardForm2 e f) =
     (if (case textArea f of Some v \<Rightarrow> trim v | None \<Rightarrow> []) \<noteq> []
      then [PostForm (lit ''/clipboard'') (formData f)]
      else [])"
  by (simp add: handleClipboardForm2_def Let_def split: outcome.splits option.splits)

lemma handleClipboardForm2_failure:
  assumes "req \<in> set (requests (handleClipboardForm2 e f))" "fetch e req = Returns result"
    "get_prop result (lit ''status'') \<noteq> JStr (lit ''success'')"
  shows "failure_outcome e (SubmitClipboardForm2 f) req result"
proof -
  from assms(1) have g: "(case textArea f of Some v \<Rightarrow> trim v | None \<Rightarrow> []) \<noteq> []"
    and r: "req = PostForm (lit ''/clipboard'') (formData f)"
    by (simp_all add: handleClipboardForm2_requests split: if_splits)
  from assms(2) r have fr: "fetch e (PostForm (lit ''/clipboard'') (formData f)) = Returns result"
    by simp
  show ?thesis using g fr assms(3) r
    by (auto simp add: failure_outcome_def handleClipboardForm2_def Let_def get_prop_nullish)
qed

lemma handleFavoriteToggles_requests:
  "requests (handleFavoriteToggles e b) =
     (if True
      then [PostJson (lit ''/clipboard/'' @ interpolate (getAttribute b (lit ''data-id''))
                 @ lit ''/favorite'')
        (JObj [(lit ''favorite'',
                JBool (getAttribute b (lit ''data-favorite'') \<noteq> Some (lit ''true'')))])]
      else [])"
  by (simp add: handleFavoriteToggles_def Let_def split: outcome.splits option.splits)

lemma handleFavoriteToggles_failure:
  assumes "req \<in> set (requests (handleFavoriteToggles e b))" "fetch e req = Returns result"
    "get_prop result (lit ''status'') \<noteq> JStr (lit ''success'')"
  shows "failure_outcome e (ClickFavorite b) req result"
proof -
  from assms(1) have g: "True"
    and r: "req = PostJson (lit ''/clipboard/'' @ interpolate (getAttribute b (lit ''data-id''))
                 @ lit ''/favorite'')
        (JObj [(lit ''favorite'',
                JBool (getAttribute b (lit ''data-favorite'') \<noteq> Some (lit ''true'')))])"
    by (simp_all add: handleFavoriteToggles_requests split: if_splits)
  from assms(2) r have fr: "fetch e (PostJson (lit ''/clipboard/'' @ interpolate (getAttribute b (lit ''data-id''))
                 @ lit ''/favorite'')
        (JObj [(lit ''favorite'',
                JBool (getAttribute b (lit ''data-favorite'') \<noteq> Some (lit ''true'')))])) = Returns result"
    by simp
  show ?thesis using g fr assms(3) r
    by (auto simp add: failure_outcome_def handleFavoriteToggles_def Let_def get_prop_nullish)
qed

lemma handleRetentionToggles_requests:
  "requests (handleRetentionToggles e b) =
     (if True
      then [PostJson (lit ''/clipboard/'' @ interpolate (getAttribute b (lit ''data-id''))
                 @ lit ''/retention'')
        (JObj [(lit ''keep'',
                JBool (getAttribute b (lit ''data-keep'') \<noteq> Some (lit ''true'')))])]
      else [])"
  by (simp add: handleRetentionToggles_def Let_def split: outcome.splits option.splits)

lemma handleRetentionToggles_failure:
  assumes "req \<in> set (requests (handleRetentionToggles e b))" "fetch e req = Returns result"
    "get_prop result (lit ''status'') \<noteq> JStr (lit ''success'')"
  shows "failure_outcome e (ClickRetention b) req result"
proof -
  from assms(1) have g: "True"
    and r: "req = PostJson (lit ''/clipboard/'' @ interpolate (getAttribute b (lit ''data-id''))
                 @ lit ''/retention'')
        (JObj [(lit ''keep'',
                JBool (getAttribute b (lit ''data-keep'') \<noteq> Some (lit ''true'')))])"
    by (simp_all add: handleRetentionToggles_requests split: if_splits)
  from assms(2) r have fr: "fetch e (PostJson (lit ''/clipboard/'' @ interpolate (getAttribute b (lit ''data-id''))
                 @ lit ''/retention'')
        (JObj [(lit ''keep'',
                JBool (getAttribute b (lit ''data-keep'') \<noteq> Some (lit ''true'')))])) = Returns result"
    by simp
  show ?thesis using g fr assms(3) r
    by (auto simp add: failure_outcome_def handleRetentionToggles_def Let_def get_prop_nullish)
qed

lemma handleFolderCreate_requests:
  "requests (handleFolderCreate e f) =
     (if (\<exists>n. map_of (formData f) (lit ''name'') = Some n \<and> n \<noteq> [] \<and> trim n \<noteq> [])
      then [PostForm (lit ''/clipboard/folders'') (formData f)]
      else [])"
  by (simp add: handleFolderCreate_def Let_def split: outcome.splits option.splits)

lemma handleFolderCreate_failure:
  assumes "req \<in> set (requests (handleFolderCreate e f))" "fetch e req = Returns result"
    "get_prop result (lit ''status'') \<noteq> JStr (lit ''success'')"
  shows "failure_outcome e (SubmitFolderCreate f) req result"
proof -
  from assms(1) have g: "(\<exists>n. map_of (formData f) (lit ''name'') = Some n \<and> n \<noteq> [] \<and> trim n \<noteq> [])"
    and r: "req = PostForm (lit ''/clipboard/folders'') (formData f)"
    by (simp_all add: handleFolderCreate_requests split: if_splits)
  from assms(2) r have fr: "fetch e (PostForm (lit ''/clipboard/folders'') (formData f)) = Returns result"
    by simp
  show ?thesis using g fr assms(3) r
    by (auto simp add: failure_outcome_def handleFolderCreate_def Let_def get_prop_nullish)
qed

lemma saveRename_requests:
  "requests (saveRename e b v) =
     (if (trim v \<noteq> [] \<and> trim v \<noteq> attr_or (getAttribute b (lit ''data-name'')) [])
      then [PostJson (lit ''/clipboard/folders/'' @ interpolate (getAttribute b (lit ''data-id''))
                 @ lit ''/rename'')
        (JObj [(lit ''name'', JStr (trim v))])]
      else [])"
  by (simp add: saveRename_def Let_def split: outcome.splits option.splits)

lemma saveRename_failure:
  assumes "req \<in> set (requests (saveRename e b v))" "fetch e req = Returns result"
    "get_prop result (lit ''status'') \<noteq> JStr (lit ''success'')"
  shows "failure_outcome e (SaveInlineRename b v) req result"
proof -
  from assms(1) have g: "(trim v \<noteq> [] \<and> trim v \<noteq> attr_or (getAttribute b (lit ''data-name'')) [])"
    and r: "req = PostJson (lit ''/clipboard/folders/'' @ interpolate (getAttribute b (lit ''data-id''))
                 @ lit ''/rename'')
        (JObj [(lit ''name'', JStr (trim v))])"
    by (simp_all add: saveRename_requests split: if_splits)
  from assms(2) r have fr: "fetch e (PostJson (lit ''/clipboard/folders/'' @ interpolate (getAttribute b (lit ''data-id''))
                 @ lit ''/rename'')
        (JObj [(lit ''name'', JStr (trim v))])) = Returns result"
    by simp
  show ?thesis using g fr assms(3) r
    by (auto simp add: failure_outcome_def saveRename_def Let_def get_prop_nullish)
qed

lemma doDelete_requests:
  "requests (doDelete e i) =
     [PostJson (lit ''/clipboard/'' @ interpolate i @ lit ''/delete'') (JObj [])]"
  by (simp add: doDelete_def Let_def split: outcome.splits)

lemma doDelete_failure:
  assumes "fetch e (PostJson (lit ''/clipboard/'' @ interpolate i @ lit ''/delete'') (JObj []))
             = Returns result"
    "get_prop result (lit ''status'') \<noteq> JStr (lit ''success'')"
  shows "reloads (doDelete e i) = []"
    "toasts (doDelete e i) =
       (if showToast e
        then [(js_or (get_prop result (lit ''message'')) (JStr (lit ''Failed to delete'')),
               lit ''error'')]
        else [])"
  using assms by (simp_all add: doDelete_def Let_def get_prop_nullish)

lemma handleDeleteButtons_failure:
  assumes "req \<in> set (requests (handleDeleteButtons e b))" "fetch e req = Returns result"
    "get_prop result (lit ''status'') \<noteq> JStr (lit ''success'')"
  shows "failure_outcome e (ClickDelete b) req result"
proof (cases "showConfirmModal e")
  case None
  with assms show ?thesis
    by (auto simp add: failure_outcome_def handleDeleteButtons_def Let_def doDelete_requests
          doDelete_failure split: if_splits)
next
  case (Some modal)
  with assms show ?thesis
    by (auto simp add: failure_outcome_def handleDeleteButtons_def Let_def doDelete_requests
          doDelete_failure split: if_splits)
qed

lemma doDeleteFolder_requests:
  "requests (doDeleteFolder e i) =
     [PostJson (lit ''/clipboard/folders/'' @ interpolate i @ lit ''/delete'') (JObj [])]"
  by (simp add: doDeleteFolder_def Let_def split: outcome.splits)

lemma doDeleteFolder_failure:
  assumes "fetch e (PostJson (lit ''/clipboard/folders/'' @ interpolate i @ lit ''/delete'')
             (JObj [])) = Returns result"
    "get_prop result (lit ''status'') \<noteq> JStr (lit ''success'')"
  shows "reloads (doDeleteFolder e i) = []"
    "toasts (doDeleteFolder e i) =
       (if showToast e
        then [(js_or (get_prop result (lit ''message'')) (JStr (lit ''Failed to delete folder'')),
               lit ''error'')]
        else [])"
  using assms by (simp_all add: doDeleteFolder_def Let_def get_prop_nullish)

lemma handleFolderDelete_failure:
  assumes "req \<in> set (requests (handleFolderDelete e b))" "fetch e req = Returns result"
    "get_prop result (lit ''status'') \<noteq> JStr (lit ''success'')"
  shows "failure_outcome e (ClickFolderDelete b) req result"
proof (cases "showConfirmModal e")
  case None
  with assms show ?thesis
    by (auto simp add: failure_outcome_def handleFolderDelete_def Let_def
          doDeleteFolder_requests doDeleteFolder_failure split: if_splits)
next
  case (Some modal)
  with assms show ?thesis
    by (auto simp add: failure_outcome_def handleFolderDelete_def Let_def
          doDeleteFolder_requests doDeleteFolder_failure split: if_splits)
qed

lemma submitFolderRename_requests:
  "requests (submitFolderRename e i n) =
     [PostJson (lit ''/clipboard/folders/'' @ interpolate i @ lit ''/rename'')
        (JObj [(lit ''name'', JStr n)])]"
  by (simp add: submitFolderRename_def Let_def split: outcome.splits)

lemma submitFolderRename_failure:
  assumes "fetch e (PostJson (lit ''/clipboard/folders/'' @ interpolate i @ lit ''/rename'')
             (JObj [(lit ''name'', JStr n)])) = Returns result"
    "get_prop result (lit ''status'') \<noteq> JStr (lit ''success'')"
  shows "reloads (submitFolderRename e i n) = []"
    "toasts (submitFolderRename e i n) =
       (if showToast e
        then [(js_or (get_prop result (lit ''message'')) (JStr (lit ''Failed to rename folder'')),
               lit ''error'')]
        else [])"
  using assms by (simp_all add: submitFolderRename_def Let_def get_prop_nullish)

text \<open>The prompt listener of the first module does what the prompt fallback of the second
  module does through \<open>submitFolderRename\<close>.\<close>

lemma handleFolderRename_prompt:
  "handleFolderRename e b =
     (let folderId = getAttribute b (lit ''data-id'');
          currentName = attr_or (getAttribute b (lit ''data-name'')) [];
          newName = prompt e (lit ''Rename folder'') currentName
      in Prompt (lit ''Rename folder'') currentName newName #
         (case newName of None \<Rightarrow> []
          | Some n \<Rightarrow> if n \<noteq> [] \<and> trim n \<noteq> [] then submitFolderRename e folderId (trim n)
                      else []))"
  by (simp add: handleFolderRename_def submitFolderRename_def Let_def split: option.splits)

lemma handleFolderRename_failure:
  assumes "req \<in> set (requests (handleFolderRename e b))" "fetch e req = Returns result"
    "get_prop result (lit ''status'') \<noteq> JStr (lit ''success'')"
  shows "failure_outcome e (ClickFolderRename b) req result"
  using assms
  by (cases "prompt e (lit ''Rename folder'') (attr_or (getAttribute b (lit ''data-name'')) [])")
     (auto simp add: failure_outcome_def handleFolderRename_prompt Let_def
        submitFolderRename_requests submitFolderRename_failure split: if_splits)

lemma handleFolderRename2_failure:
  assumes "req \<in> set (requests (handleFolderRename2 e b))" "fetch e req = Returns result"
    "get_prop result (lit ''status'') \<noteq> JStr (lit ''success'')"
  shows "failure_outcome e (ClickFolderRename2 b) req result"
  using assms
  by (cases "prompt e (lit ''Rename folder'') (attr_or (getAttribute b (lit ''data-name'')) [])")
     (auto simp add: failure_outcome_def handleFolderRename2_def Let_def
        submitFolderRename_requests submitFolderRename_failure split: if_splits)

lemma handle_failure:
  assumes "req \<in> set (requests (handle e g))" "fetch e req = Returns result"
    "get_prop result (lit ''status'') \<noteq> JStr (lit ''success'')"
  shows "failure_outcome e g req result"
proof (cases g)
  case (SubmitClipboardForm f)
  with assms show ?thesis by (simp add: handleClipboardForm_failure)
next
  case (SubmitClipboardForm2 f)
  with assms show ?thesis by (simp add: handleClipboardForm2_failure)
next
  case (ClickDelete b)
  with assms show ?thesis by (simp add: handleDeleteButtons_failure)
next
  case (ClickFavorite b)
  with assms show ?thesis by (simp add: handleFavoriteToggles_failure)
next
  case (ClickRetention b)
  with assms show ?thesis by (simp add: handleRetentionToggles_failure)
next
  case (SubmitFolderCreate f)
  with assms show ?thesis by (simp add: handleFolderCreate_failure)
next
  case (ClickFolderRename b)
  with assms show ?thesis by (simp add: handleFolderRename_failure)
next
  case (ClickFolderRename2 b)
  with assms show ?thesis by (simp add: handleFolderRename2_failure)
next
  case (SaveInlineRename b v)
  with assms show ?thesis by (simp add: saveRename_failure)
next
  case (ClickFolderDelete b)
  with assms show ?thesis by (simp add: handleFolderDelete_failure)
qed

text \<open>
  Claim C7, as stated: on a response whose status is not \<open>success\<close> every handler shows the
  response's message when it is present and a generic message otherwise. Two inputs
  where it does not. On a page without \<open>window.showToast\<close> the folder-delete handler gets
  the answer \<open>{status: 'error', message: 'Folder is not empty'}\<close> and shows nothing, every
  toast of the file being guarded by \<open>if (window.showToast)\<close>. And with toasts available,
  the answer \<open>{status: 'error', message: ''}\<close> carries a message field, which
  \<open>result.message || 'Failed to delete folder'\<close> replaces by the generic message, the
  empty string being falsy.
\<close>

theorem server_message_not_always_shown:
  "requests (handle env_server_error_no_toast (ClickFolderDelete btn_work)) =
     [PostJson (lit ''/clipboard/folders/7/delete'') (JObj [])]
   \<and> fetch env_server_error_no_toast (PostJson (lit ''/clipboard/folders/7/delete'') (JObj []))
       = Returns server_error
   \<and> get_prop server_error (lit ''status'') \<noteq> JStr (lit ''success'')
   \<and> get_prop server_error (lit ''message'') = JStr (lit ''Folder is not empty'')
   \<and> toasts (handle env_server_error_no_toast (ClickFolderDelete btn_work)) = []
   \<and> fetch env_server_error_blank (PostJson (lit ''/clipboard/folders/7/delete'') (JObj []))
       = Returns server_error_blank
   \<and> get_prop server_error_blank (lit ''status'') \<noteq> JStr (lit ''success'')
   \<and> get_prop server_error_blank (lit ''message'') = JStr []
   \<and> toasts (handle env_server_error_blank (ClickFolderDelete btn_work)) =
       [(JStr (lit ''Failed to delete folder''), lit ''error'')]"
  by (simp add: handleFolderDelete_def doDeleteFolder_def env_server_error_no_toast_def
      env_server_error_def env_server_error_blank_def env_ok_def server_error_def
      server_error_blank_def btn_work_def js_eval)

text \<open>
  Claim C7, amended. For every listener that issues a request: when the parsed response
  to that request has a status other than \<open>success\<close> (a response of \<open>null\<close>, whose status
  cannot be read, included), the request is the only one the listener issues (no retry),
  no page reload is scheduled, and, if \<open>window.showToast\<close> is defined, exactly one toast
  is shown, of kind \<open>error\<close>, with the response's message when that is truthy and the
  listener's generic message otherwise; if \<open>window.showToast\<close> is not defined, nothing is
  shown.
\<close>

theorem server_failure:
  assumes "req \<in> set (requests (handle e g))" "fetch e req = Returns result"
    "get_prop result (lit ''status'') \<noteq> JStr (lit ''success'')"
  shows "requests (handle e g) = [req] \<and> reloads (handle e g) = [] \<and>
     toasts (handle e g) =
       (if showToast e
        then [(if truthy (get_prop result (lit ''message''))
               then get_prop result (lit ''message'') else JStr (generic_message g),
               lit ''error'')]
        else [])"
  using handle_failure [OF assms] by (simp add: failure_outcome_def js_or_def)

theorem server_failure_witness:
  "requests (handle env_server_error (ClickFolderDelete btn_work)) =
     [PostJson (lit ''/clipboard/folders/7/delete'') (JObj [])]
   \<and> reloads (handle env_server_error (ClickFolderDelete btn_work)) = []
   \<and> toasts (handle env_server_error (ClickFolderDelete btn_work)) =
       [(JStr (lit ''Folder is not empty''), lit ''error'')]
   \<and> toasts (handle env_server_error_no_toast (ClickFolderDelete btn_work)) = []"
proof -
  have a: "PostJson (lit ''/clipboard/folders/7/delete'') (JObj [])
      \<in> set (requests (handle env_server_error (ClickFolderDelete btn_work)))"
    by (simp add: handleFolderDelete_def doDeleteFolder_requests env_server_error_def
        env_ok_def btn_work_def js_eval)
  have a': "PostJson (lit ''/clipboard/folders/7/delete'') (JObj [])
      \<in> set (requests (handle env_server_error_no_toast (ClickFolderDelete btn_work)))"
    by (simp add: handleFolderDelete_def doDeleteFolder_requests env_server_error_no_toast_def
        env_server_error_def env_ok_def btn_work_def js_eval)
  have b: "fetch env_server_error (PostJson (lit ''/clipboard/folders/7/delete'') (JObj []))
      = Returns server_error"
    by (simp add: env_server_error_def)
  have b': "fetch env_server_error_no_toast
      (PostJson (lit ''/clipboard/folders/7/delete'') (JObj [])) = Returns server_error"
    by (simp add: env_server_error_no_toast_def env_server_error_def)
  have c: "get_prop server_error (lit ''status'') \<noteq> JStr (lit ''success'')"
    by (simp add: server_error_def lit_def)
  have m: "get_prop server_error (lit ''message'') = JStr (lit ''Folder is not empty'')"
    by (simp add: server_error_def lit_def)
  have t: "truthy (JStr (lit ''Folder is not empty''))"
    by (simp add: lit_def)
  show ?thesis
    using server_failure [OF a b c] server_failure [OF a' b' c] m t
    by (simp add: env_server_error_no_toast_def env_server_error_def env_ok_def)
qed

section \<open>The create-entry form\<close>

text \<open>
  Claim C3, as stated: a submission whose text is blank issues no request and shows a
  validation error. On a page without \<open>window.showToast\<close> the listener of either module
  shows nothing for the text of three spaces: the toast is guarded by
  \<open>if (window.showToast)\<close>.
\<close>

theorem blank_submission_without_toast:
  "textArea form_blank = Some (lit ''   '') \<and> list_all is_js_space (lit ''   '')
   \<and> toasts (handle env_no_toast (SubmitClipboardForm form_blank)) = []
   \<and> toasts (handle env_no_toast (SubmitClipboardForm2 form_blank)) = []"
  by (simp add: handleClipboardForm_def handleClipboardForm2_def env_no_toast_def env_ok_def
      form_blank_def js_eval)

text \<open>
  Claim C3, amended. For every submission of the create-entry form, in either module,
  whose \<open>clipboard_data\<close> field holds only white space (or nothing): no request is issued,
  and the error toast \<open>Please enter some text\<close> is shown if \<open>window.showToast\<close> is
  defined; if it is not, nothing is shown.
\<close>

theorem blank_submission:
  assumes "textArea f = Some v" "list_all is_js_space v"
    "g = SubmitClipboardForm f \<or> g = SubmitClipboardForm2 f"
  shows "requests (handle e g) = []
     \<and> toasts (handle e g) =
         (if showToast e then [(JStr (lit ''Please enter some text''), lit ''error'')] else [])"
  using assms
  by (auto simp add: handleClipboardForm_def handleClipboardForm2_def trim_all_space)

theorem blank_submission_witness:
  "requests (handle env_ok (SubmitClipboardForm form_blank)) = []
   \<and> toasts (handle env_ok (SubmitClipboardForm form_blank)) =
        [(JStr (lit ''Please enter some text''), lit ''error'')]
   \<and> requests (handle env_no_toast (SubmitClipboardForm2 form_blank)) = []
   \<and> toasts (handle env_no_toast (SubmitClipboardForm2 form_blank)) = []"
proof -
  have sp: "list_all is_js_space (lit ''   '')" by (simp add: lit_def is_js_space_def)
  have ta: "textArea form_blank = Some (lit ''   '')" by (simp add: form_blank_def)
  show ?thesis
    using blank_submission [OF ta sp, of "SubmitClipboardForm form_blank" env_ok]
          blank_submission [OF ta sp, of "SubmitClipboardForm2 form_blank" env_no_toast]
    by (simp add: env_ok_def env_no_toast_def)
qed

section \<open>Deleting an item or a folder\<close>

lemma confirmed_before_request_True: "confirmed_before_request True tr"
  by (induction tr rule: requests.induct) simp_all

lemma confirmed_before_request_append:
  "confirmed_before_request ok (pre @ Fetch r # post) \<Longrightarrow> ok \<or> list_ex affirmative pre"
proof (induction pre arbitrary: ok)
  case Nil
  then show ?case by simp
next
  case (Cons a pre)
  show ?case
  proof (cases a)
    case (Fetch r')
    with Cons.prems show ?thesis by simp
  qed (use Cons in \<open>force+\<close>)
qed

lemma no_affirmative_no_request:
  "confirmed_before_request ok tr \<Longrightarrow> \<not> ok \<Longrightarrow> \<not> list_ex affirmative tr \<Longrightarrow> requests tr = []"
  by (induction ok tr rule: confirmed_before_request.induct) auto

lemma handleDeleteButtons_gated: "confirmed_before_request False (handleDeleteButtons e b)"
  by (simp add: handleDeleteButtons_def Let_def confirmed_before_request_True
      split: option.splits)

lemma handleFolderDelete_gated: "confirmed_before_request False (handleFolderDelete e b)"
  by (simp add: handleFolderDelete_def Let_def confirmed_before_request_True
      split: option.splits)

lemma no_confirmation_toast [simp]: "\<not> list_ex is_confirmation (toast e m k)"
  by (simp add: toast_def)

lemma no_confirmation_doDelete [simp]: "\<not> list_ex is_confirmation (doDelete e i)"
  by (simp add: doDelete_def Let_def split: outcome.splits)

lemma no_confirmation_doDeleteFolder [simp]:
  "\<not> list_ex is_confirmation (doDeleteFolder e i)"
  by (simp add: doDeleteFolder_def Let_def split: outcome.splits)

text \<open>
  The shape of what a delete listener does: one confirmation step, of the kind the page
  provides; nothing after it when it was declined; the one request after it when it was
  confirmed.
\<close>

lemma handleDeleteButtons_shape:
  "\<exists>c rest. handleDeleteButtons e b = c # rest
     \<and> (case showConfirmModal e of
          Some modal \<Rightarrow> \<exists>opts. c = ConfirmModal opts (modal opts)
        | None \<Rightarrow> \<exists>q. c = Confirm q (confirm e q))
     \<and> \<not> list_ex is_confirmation rest
     \<and> (\<not> affirmative c \<longrightarrow> rest = [])
     \<and> (affirmative c \<longrightarrow> requests rest =
           [PostJson (lit ''/clipboard/'' @ interpolate (getAttribute b (lit ''data-id''))
                        @ lit ''/delete'') (JObj [])])"
  by (simp add: handleDeleteButtons_def Let_def doDelete_requests split: option.splits)

lemma handleFolderDelete_shape:
  "\<exists>c rest. handleFolderDelete e b = c # rest
     \<and> (case showConfirmModal e of
          Some modal \<Rightarrow> \<exists>opts. c = ConfirmModal opts (modal opts)
        | None \<Rightarrow> \<exists>q. c = Confirm q (confirm e q))
     \<and> \<not> list_ex is_confirmation rest
     \<and> (\<not> affirmative c \<longrightarrow> rest = [])
     \<and> (affirmative c \<longrightarrow> requests rest =
           [PostJson (lit ''/clipboard/folders/''
                        @ interpolate (getAttribute b (lit ''data-id'')) @ lit ''/delete'')
              (JObj [])])"
  by (simp add: handleFolderDelete_def Let_def doDeleteFolder_requests split: option.splits)

text \<open>
  Claim C4. For the item-delete and the folder-delete listener:
  \<^item> wherever a request occurs among the effects, a confirmation that ended affirmatively
    occurs before it, and when none ended affirmatively no request is issued at all;
  \<^item> the listener opens with its confirmation step, which is the custom modal with the
    answer the user gave it when \<open>window.showConfirmModal\<close> is defined, and the native
    \<open>confirm\<close> with its return value otherwise; no other confirmation step follows;
  \<^item> when that step was declined the listener does nothing further, and when it was
    confirmed the requests that follow are the one POST to the delete endpoint;
  \<^item> so a request is issued only if the first effect is a confirmation that ended
    affirmatively, and where the custom modal is defined the native dialog is never
    consulted: a dismissed modal cannot be overridden by it.
\<close>

theorem delete_after_confirmation:
  assumes "g = ClickDelete b \<or> g = ClickFolderDelete b"
  shows "(\<forall>pre r post. handle e g = pre @ Fetch r # post \<longrightarrow> list_ex affirmative pre)
     \<and> (\<not> list_ex affirmative (handle e g) \<longrightarrow> requests (handle e g) = [])
     \<and> (\<exists>c rest. handle e g = c # rest
          \<and> (case showConfirmModal e of
               Some modal \<Rightarrow> \<exists>opts. c = ConfirmModal opts (modal opts)
             | None \<Rightarrow> \<exists>q. c = Confirm q (confirm e q))
          \<and> \<not> list_ex is_confirmation rest
          \<and> (\<not> affirmative c \<longrightarrow> rest = [])
          \<and> (affirmative c \<longrightarrow> requests rest = [PostJson (delete_endpoint g) (JObj [])]))
     \<and> (requests (handle e g) \<noteq> [] \<longrightarrow> affirmative (hd (handle e g)))
     \<and> (showConfirmModal e \<noteq> None \<longrightarrow> (\<forall>q a. Confirm q a \<notin> set (handle e g)))"
proof -
  have gated: "confirmed_before_request False (handle e g)"
    using assms handleDeleteButtons_gated handleFolderDelete_gated by auto
  have shape: "\<exists>c rest. handle e g = c # rest
          \<and> (case showConfirmModal e of
               Some modal \<Rightarrow> \<exists>opts. c = ConfirmModal opts (modal opts)
             | None \<Rightarrow> \<exists>q. c = Confirm q (confirm e q))
          \<and> \<not> list_ex is_confirmation rest
          \<and> (\<not> affirmative c \<longrightarrow> rest = [])
          \<and> (affirmative c \<longrightarrow> requests rest = [PostJson (delete_endpoint g) (JObj [])])"
    using assms handleDeleteButtons_shape [of e b] handleFolderDelete_shape [of e b]
    by (auto simp add: delete_endpoint_def)
  then obtain c rest where tr: "handle e g = c # rest"
    and kind: "case showConfirmModal e of
               Some modal \<Rightarrow> \<exists>opts. c = ConfirmModal opts (modal opts)
             | None \<Rightarrow> \<exists>q. c = Confirm q (confirm e q)"
    and once: "\<not> list_ex is_confirmation rest"
    and declined: "\<not> affirmative c \<longrightarrow> rest = []"
    by blast
  from gated
  have before: "\<forall>pre r post. handle e g = pre @ Fetch r # post \<longrightarrow> list_ex affirmative pre"
    using confirmed_before_request_append by fastforce
  from gated
  have none: "\<not> list_ex affirmative (handle e g) \<longrightarrow> requests (handle e g) = []"
    using no_affirmative_no_request by blast
  have c_no_req: "requests [c] = []"
    using kind by (auto split: option.splits)
  have first: "requests (handle e g) \<noteq> [] \<longrightarrow> affirmative (hd (handle e g))"
  proof
    assume "requests (handle e g) \<noteq> []"
    then have "rest \<noteq> []" using tr c_no_req by (cases c) auto
    with declined have "affirmative c" by blast
    then show "affirmative (hd (handle e g))" by (simp add: tr)
  qed
  have native: "showConfirmModal e \<noteq> None \<longrightarrow> (\<forall>q a. Confirm q a \<notin> set (handle e g))"
  proof (intro impI allI notI)
    fix q a
    assume m: "showConfirmModal e \<noteq> None" and mem: "Confirm q a \<in> set (handle e g)"
    from m kind have "c \<noteq> Confirm q a" by (auto split: option.splits)
    with mem tr have "Confirm q a \<in> set rest" by auto
    then have "list_ex is_confirmation rest"
      unfolding list_ex_iff by (rule bexI [rotated]) simp
    with once show False by contradiction
  qed
  from before none shape first native show ?thesis by blast
qed

text \<open>
  The listeners at concrete inputs. With the custom modal defined and dismissed, by a
  user whose native dialog would have answered yes, each listener shows the modal and
  does nothing else; a declined native dialog likewise; a confirmed one is followed by
  the request.
\<close>

theorem delete_after_confirmation_witness:
  "confirm env_modal_dismissed (lit ''Delete '' @ dquote @ lit ''this item'' @ dquote @ lit ''?'')
   \<and> handle env_modal_dismissed (ClickDelete btn_bare) =
       [ConfirmModal \<lparr> title = lit ''Delete Clipboard Item'',
           message = lit ''Are you sure you want to delete '' @ dquote @ lit ''this item''
                     @ dquote @ lit ''? This action cannot be undone.'',
           confirmText = lit ''Delete'' \<rparr> False]
   \<and> requests (handle env_modal_dismissed (ClickDelete btn_bare)) = []
   \<and> handle env_modal_dismissed (ClickFolderDelete btn_work) =
       [ConfirmModal \<lparr> title = lit ''Delete Folder'',
           message = lit ''Delete this folder? It must be empty before removal.'',
           confirmText = lit ''Delete'' \<rparr> False]
   \<and> requests (handle env_modal_dismissed (ClickFolderDelete btn_work)) = []
   \<and> handle env_decline (ClickDelete btn_bare) =
       [Confirm (lit ''Delete '' @ dquote @ lit ''this item'' @ dquote @ lit ''?'') False]
   \<and> requests (handle env_decline (ClickDelete btn_bare)) = []
   \<and> handle env_ok (ClickDelete btn_bare) =
       [Confirm (lit ''Delete '' @ dquote @ lit ''this item'' @ dquote @ lit ''?'') True,
        Fetch (PostJson (lit ''/clipboard/125/delete'') (JObj [])),
        Toast (JStr (lit ''Deleted!'')) (lit ''success''),
        ReloadAfter 1000]
   \<and> affirmative (hd (handle env_ok (ClickDelete btn_bare)))
   \<and> list_ex affirmative
        [Confirm (lit ''Delete '' @ dquote @ lit ''this item'' @ dquote @ lit ''?'') True]"
proof -
  have nat_yes: "confirm env_modal_dismissed
      (lit ''Delete '' @ dquote @ lit ''this item'' @ dquote @ lit ''?'')"
    by (simp add: env_modal_dismissed_def env_ok_def)
  have t1: "handle env_modal_dismissed (ClickDelete btn_bare) =
       [ConfirmModal \<lparr> title = lit ''Delete Clipboard Item'',
           message = lit ''Are you sure you want to delete '' @ dquote @ lit ''this item''
                     @ dquote @ lit ''? This action cannot be undone.'',
           confirmText = lit ''Delete'' \<rparr> False]"
    by (simp add: handleDeleteButtons_def itemName_def deleteName_def env_modal_dismissed_def
        env_ok_def btn_bare_def js_eval)
  have t2: "handle env_modal_dismissed (ClickFolderDelete btn_work) =
       [ConfirmModal \<lparr> title = lit ''Delete Folder'',
           message = lit ''Delete this folder? It must be empty before removal.'',
           confirmText = lit ''Delete'' \<rparr> False]"
    by (simp add: handleFolderDelete_def env_modal_dismissed_def env_ok_def Let_def)
  have t3: "handle env_decline (ClickDelete btn_bare) =
       [Confirm (lit ''Delete '' @ dquote @ lit ''this item'' @ dquote @ lit ''?'') False]"
    by (simp add: handleDeleteButtons_def itemName_def deleteName_def env_decline_def
        env_ok_def btn_bare_def js_eval)
  have t4: "handle env_ok (ClickDelete btn_bare) =
     [Confirm (lit ''Delete '' @ dquote @ lit ''this item'' @ dquote @ lit ''?'') True]
     @ Fetch (PostJson (lit ''/clipboard/125/delete'') (JObj []))
     # [Toast (JStr (lit ''Deleted!'')) (lit ''success''), ReloadAfter 1000]"
    by (simp add: handleDeleteButtons_def doDelete_def itemName_def deleteName_def
        env_ok_def btn_bare_def js_eval)
  have g1: "ClickDelete btn_bare = ClickDelete btn_bare
      \<or> ClickDelete btn_bare = ClickFolderDelete btn_bare"
    by simp
  have g2: "ClickFolderDelete btn_work = ClickDelete btn_work
      \<or> ClickFolderDelete btn_work = ClickFolderDelete btn_work"
    by simp
  have r1: "requests (handle env_modal_dismissed (ClickDelete btn_bare)) = []"
    using delete_after_confirmation [OF g1, of env_modal_dismissed] t1 by simp
  have r2: "requests (handle env_modal_dismissed (ClickFolderDelete btn_work)) = []"
    using delete_after_confirmation [OF g2, of env_modal_dismissed] t2 by simp
  have r3: "requests (handle env_decline (ClickDelete btn_bare)) = []"
    using delete_after_confirmation [OF g1, of env_decline] t3 by simp
  have r4: "affirmative (hd (handle env_ok (ClickDelete btn_bare)))"
    using delete_after_confirmation [OF g1, of env_ok] t4 by simp
  have r5: "list_ex affirmative
        [Confirm (lit ''Delete '' @ dquote @ lit ''this item'' @ dquote @ lit ''?'') True]"
    using delete_after_confirmation [OF g1, of env_ok] t4 by blast
  from nat_yes t1 t2 t3 t4 r1 r2 r3 r4 r5 show ?thesis by simp
qed

lemma confirmation_messages_doDelete [simp]: "confirmation_messages (doDelete e i) = []"
  by (simp add: doDelete_def Let_def split: outcome.splits)

lemma confirmation_messages_delete:
  "confirmation_messages (handleDeleteButtons e b) =
     [case showConfirmModal e of
        None \<Rightarrow> lit ''Delete '' @ dquote @ itemName b @ dquote @ lit ''?''
      | Some modal \<Rightarrow> lit ''Are you sure you want to delete '' @ dquote @ itemName b @ dquote
                       @ lit ''? This action cannot be undone.'']"
  by (simp add: handleDeleteButtons_def Let_def split: option.splits)

text \<open>
  Claim C6, as stated: the display name equals the \<open>data-name\<close> value unchanged when its
  length is at most 30. The empty \<open>data-name\<close> has length 0, and the display name is not
  the empty string but \<open>this item\<close>: \<open>getAttribute('data-name') || 'this item'\<close> replaces
  it before the length is looked at.
\<close>

theorem empty_name_not_shown_unchanged:
  "getAttribute btn_starred (lit ''data-name'') = Some []
   \<and> length ([] :: js_string) \<le> 30
   \<and> itemName btn_starred = lit ''this item''
   \<and> itemName btn_starred \<noteq> []"
  by (simp add: itemName_def deleteName_def btn_starred_def js_eval)

text \<open>
  Claim C6, amended. For every delete-button click whose \<open>data-name\<close> is present and not
  empty, the display name used in the confirmation message (of the modal or of the
  native dialog) is the \<open>data-name\<close> value unchanged when its length is at most 30 code
  units, and otherwise its first 30 code units followed by \<open>...\<close>; the name
  \<open>A very very very long folder title exceeding thirty chars\<close> is shown as
  \<open>A very very very long folder t...\<close>.
\<close>

theorem display_name_truncated:
  assumes "getAttribute b (lit ''data-name'') = Some n" "n \<noteq> []"
  shows "itemName b = (if length n \<le> 30 then n else take 30 n @ lit ''...'')
     \<and> confirmation_messages (handleDeleteButtons e b) =
         [case showConfirmModal e of
            None \<Rightarrow> lit ''Delete '' @ dquote @ itemName b @ dquote @ lit ''?''
          | Some modal \<Rightarrow> lit ''Are you sure you want to delete '' @ dquote @ itemName b
                           @ dquote @ lit ''? This action cannot be undone.'']"
  using assms
  by (simp add: confirmation_messages_delete itemName_def deleteName_def attr_or_def
      substring0_def Let_def)

theorem display_name_truncated_witness:
  "itemName btn_item = lit ''A very very very long folder t...''
   \<and> length (lit ''A very very very long folder t'') = 30
   \<and> confirmation_messages (handleDeleteButtons env_ok btn_item) =
       [lit ''Delete '' @ dquote @ lit ''A very very very long folder t...'' @ dquote @ lit ''?'']
   \<and> itemName btn_work = lit ''Work''"
proof -
  have a: "getAttribute btn_item (lit ''data-name'') =
      Some (lit ''A very very very long folder title exceeding thirty chars'')"
    by (simp add: btn_item_def lit_def)
  have b: "lit ''A very very very long folder title exceeding thirty chars'' \<noteq> []"
    by (simp add: lit_def)
  have c: "getAttribute btn_work (lit ''data-name'') = Some (lit ''Work'')"
    by (simp add: btn_work_def lit_def)
  have d: "lit ''Work'' \<noteq> []" by (simp add: lit_def)
  show ?thesis
    using display_name_truncated [OF a b, of env_ok] display_name_truncated [OF c d, of env_ok]
    by (simp add: take_lit env_ok_def) (simp add: lit_def)
qed

text \<open>
  Claim C10. For every delete-button click whose button has no \<open>data-name\<close> attribute, or
  an empty one, the display name is \<open>this item\<close>, and that is the name the confirmation
  message carries, in the modal and in the native dialog.
\<close>

theorem default_display_name:
  assumes "getAttribute b (lit ''data-name'') = None
         \<or> getAttribute b (lit ''data-name'') = Some []"
  shows "itemName b = lit ''this item''
     \<and> confirmation_messages (handleDeleteButtons e b) =
         [case showConfirmModal e of
            None \<Rightarrow> lit ''Delete '' @ dquote @ lit ''this item'' @ dquote @ lit ''?''
          | Some modal \<Rightarrow> lit ''Are you sure you want to delete '' @ dquote @ lit ''this item''
                           @ dquote @ lit ''? This action cannot be undone.'']"
proof -
  from assms have "deleteName b = lit ''this item''"
    by (auto simp add: deleteName_def attr_or_def)
  then have "itemName b = lit ''this item''"
    by (simp add: itemName_def)
  then show ?thesis by (simp add: confirmation_messages_delete split: option.splits)
qed

theorem default_display_name_witness:
  "getAttribute btn_bare (lit ''data-name'') = None
   \<and> itemName btn_bare = lit ''this item''
   \<and> getAttribute btn_starred (lit ''data-name'') = Some []
   \<and> itemName btn_starred = lit ''this item''
   \<and> confirmation_messages (handleDeleteButtons env_ok btn_bare) =
       [lit ''Delete '' @ dquote @ lit ''this item'' @ dquote @ lit ''?'']
   \<and> confirmation_messages (handleDeleteButtons env_modal_dismissed btn_starred) =
       [lit ''Are you sure you want to delete '' @ dquote @ lit ''this item'' @ dquote
        @ lit ''? This action cannot be undone.'']"
proof -
  have a: "getAttribute btn_bare (lit ''data-name'') = None"
    by (simp add: btn_bare_def lit_def)
  have b: "getAttribute btn_starred (lit ''data-name'') = Some []"
    by (simp add: btn_starred_def lit_def)
  show ?thesis
    using default_display_name [of btn_bare env_ok]
          default_display_name [of btn_starred env_modal_dismissed] a b
    by (simp add: env_ok_def env_modal_dismissed_def)
qed

section \<open>Toggling the favorite flag\<close>

text \<open>
  Claim C5. On every click on a favorite toggle the listener issues exactly one request,
  a POST to the favorite endpoint of the item, whose body is \<open>{favorite: t}\<close> with \<open>t\<close>
  true exactly when the \<open>data-favorite\<close> attribute is not the string \<open>true\<close>: the negation
  of the state the button records.
\<close>

theorem favorite_body_is_negation:
  "requests (handleFavoriteToggles e b) =
     [PostJson (lit ''/clipboard/'' @ interpolate (getAttribute b (lit ''data-id''))
                  @ lit ''/favorite'')
        (JObj [(lit ''favorite'',
                JBool (getAttribute b (lit ''data-favorite'') \<noteq> Some (lit ''true'')))])]"
  by (simp add: handleFavoriteToggles_requests)

theorem favorite_body_is_negation_witness:
  "requests (handleFavoriteToggles env_ok btn_item) =
     [PostJson (lit ''/clipboard/123/favorite'') (JObj [(lit ''favorite'', JBool True)])]
   \<and> requests (handleFavoriteToggles env_ok btn_starred) =
     [PostJson (lit ''/clipboard/124/favorite'') (JObj [(lit ''favorite'', JBool False)])]
   \<and> requests (handleFavoriteToggles env_ok btn_bare) =
     [PostJson (lit ''/clipboard/125/favorite'') (JObj [(lit ''favorite'', JBool True)])]"
  using favorite_body_is_negation [of env_ok btn_item]
        favorite_body_is_negation [of env_ok btn_starred]
        favorite_body_is_negation [of env_ok btn_bare]
  by (simp add: btn_item_def btn_starred_def btn_bare_def js_eval)

text \<open>
  Claim C8, as stated: on the response \<open>{status: 'success', favorite: true}\<close> the handler
  shows the toast \<open>Added to favorites\<close> and schedules a reload. On a page without
  \<open>window.showToast\<close> the reload is scheduled and no toast is shown.
\<close>

theorem favorite_success_without_toast:
  "requests (handleFavoriteToggles env_no_toast btn_item) =
     [PostJson (lit ''/clipboard/123/favorite'') (JObj [(lit ''favorite'', JBool True)])]
   \<and> fetch env_no_toast
        (PostJson (lit ''/clipboard/123/favorite'') (JObj [(lit ''favorite'', JBool True)]))
       = Returns (JObj [(lit ''status'', JStr (lit ''success'')), (lit ''favorite'', JBool True)])
   \<and> toasts (handleFavoriteToggles env_no_toast btn_item) = []
   \<and> reloads (handleFavoriteToggles env_no_toast btn_item) = [500]"
  by (simp add: handleFavoriteToggles_def env_no_toast_def env_ok_def btn_item_def js_eval)

text \<open>
  Claim C8, amended. For a favorite-toggle POST whose parsed response has status
  \<open>success\<close>, the handler schedules a page reload after 500 ms and, if
  \<open>window.showToast\<close> is defined, shows one success toast, reading \<open>Added to favorites\<close>
  when the response's \<open>favorite\<close> field is truthy (as in
  \<open>{status: 'success', favorite: true}\<close>) and \<open>Removed from favorites\<close> otherwise; if
  \<open>window.showToast\<close> is not defined, no toast is shown.
\<close>

theorem favorite_success:
  assumes "req \<in> set (requests (handleFavoriteToggles e b))" "fetch e req = Returns result"
    "get_prop result (lit ''status'') = JStr (lit ''success'')"
  shows "toasts (handleFavoriteToggles e b) =
       (if showToast e
        then [(JStr (if truthy (get_prop result (lit ''favorite''))
                     then lit ''Added to favorites'' else lit ''Removed from favorites''),
               lit ''success'')]
        else [])
     \<and> reloads (handleFavoriteToggles e b) = [500]"
proof -
  from assms(1) have r: "req =
      PostJson (lit ''/clipboard/'' @ interpolate (getAttribute b (lit ''data-id''))
                  @ lit ''/favorite'')
        (JObj [(lit ''favorite'',
                JBool (getAttribute b (lit ''data-favorite'') \<noteq> Some (lit ''true'')))])"
    by (simp add: handleFavoriteToggles_requests)
  from assms(3) have nn: "\<not> nullish result"
    by (auto simp add: nullish_def)
  from assms(2) r have fr: "fetch e
      (PostJson (lit ''/clipboard/'' @ interpolate (getAttribute b (lit ''data-id''))
                  @ lit ''/favorite'')
        (JObj [(lit ''favorite'',
                JBool (getAttribute b (lit ''data-favorite'') \<noteq> Some (lit ''true'')))]))
      = Returns result"
    by simp
  show ?thesis using fr nn assms(3)
    by (simp add: handleFavoriteToggles_def Let_def)
qed

theorem favorite_success_witness:
  "toasts (handleFavoriteToggles env_ok btn_item) =
     [(JStr (lit ''Added to favorites''), lit ''success'')]
   \<and> reloads (handleFavoriteToggles env_ok btn_item) = [500]"
proof -
  have a: "PostJson (lit ''/clipboard/123/favorite'') (JObj [(lit ''favorite'', JBool True)])
      \<in> set (requests (handleFavoriteToggles env_ok btn_item))"
    by (simp add: handleFavoriteToggles_requests btn_item_def js_eval)
  have b: "fetch env_ok
        (PostJson (lit ''/clipboard/123/favorite'') (JObj [(lit ''favorite'', JBool True)]))
       = Returns (JObj [(lit ''status'', JStr (lit ''success'')), (lit ''favorite'', JBool True)])"
    by (simp add: env_ok_def)
  have c: "get_prop (JObj [(lit ''status'', JStr (lit ''success'')), (lit ''favorite'', JBool True)])
      (lit ''status'') = JStr (lit ''success'')"
    by simp
  show ?thesis
    using favorite_success [OF a b c]
    by (simp add: env_ok_def) (simp add: lit_def)
qed

section \<open>Renaming a folder\<close>

text \<open>The inline edit of the second module issues no request for a blank name or for the
  name the folder already has.\<close>

lemma saveRename_unchanged_or_blank:
  "trim v = [] \<or> trim v = attr_or (getAttribute b (lit ''data-name'')) [] \<Longrightarrow>
   requests (saveRename e b v) = []"
  by (auto simp add: saveRename_requests)

text \<open>The prompt issues no request when it is cancelled or answered with a blank name, and
  posts every other answer, trimmed, whatever the current name is.\<close>

lemma handleFolderRename_requests:
  "requests (handleFolderRename e b) =
     (case prompt e (lit ''Rename folder'') (attr_or (getAttribute b (lit ''data-name'')) []) of
        None \<Rightarrow> []
      | Some n \<Rightarrow>
          if trim n = [] then []
          else [PostJson (lit ''/clipboard/folders/''
                            @ interpolate (getAttribute b (lit ''data-id'')) @ lit ''/rename'')
                  (JObj [(lit ''name'', JStr (trim n))])])"
  by (auto simp add: handleFolderRename_prompt Let_def submitFolderRename_requests trim_def
      split: option.splits)

text \<open>
  Claim C2. A folder rename should issue no request when the submitted name, trimmed, is
  empty or equal to the folder's original name. The inline edit checks both
  (\<open>saveRename_unchanged_or_blank\<close>). The prompt of the first module, and the prompt
  fallback of the second, check only for an empty name: for the folder named \<open>Work\<close>, a
  user who accepts the prompt as it is filled in submits \<open>Work\<close>, and the listener posts
  \<open>{name: 'Work'}\<close> to the rename endpoint.
\<close>

theorem rename_prompt_posts_unchanged_name:
  "attr_or (getAttribute btn_work (lit ''data-name'')) [] = lit ''Work''
   \<and> prompt env_ok (lit ''Rename folder'') (lit ''Work'') = Some (lit ''Work'')
   \<and> trim (lit ''Work'') = lit ''Work''
   \<and> requests (handleFolderRename env_ok btn_work) =
       [PostJson (lit ''/clipboard/folders/7/rename'') (JObj [(lit ''name'', JStr (lit ''Work''))])]
   \<and> requests (handleFolderRename2 env_ok btn_work) =
       [PostJson (lit ''/clipboard/folders/7/rename'') (JObj [(lit ''name'', JStr (lit ''Work''))])]"
  by (simp add: handleFolderRename_def handleFolderRename2_def submitFolderRename_def
      env_ok_def btn_work_def js_eval)

theorem rename_prompt_posts_unchanged_name_witness:
  "length (requests (handleFolderRename env_ok btn_work)) = 1
   \<and> length (requests (handleFolderRename2 env_ok btn_work)) = 1"
  using rename_prompt_posts_unchanged_name by simp

end
